theory Spec2Isabelle
  imports Complex_Main
begin

text \<open>
  A shallow embedding of the billing and credit-ledger code of the Fusion backend:
  the cost calculator (\<open>calculateLlmProviderCost\<close>, \<open>getNeuroSwitchClassifierFee\<close>),
  the admin routes that adjust a user's credits and update a user's role, and the admin
  route that updates a model's configuration. Each handler is a function from the request
  and the database to the reply and the database it leaves; an awaited call that throws is
  a value \<open>Inl\<close>, and \<open>try\<close>/\<open>catch\<close> is a case split on it.
\<close>

section \<open>JavaScript values used by the billing code\<close>

text \<open>
  The backend is TypeScript compiled to JavaScript. A JavaScript number is modelled by
  \<open>jsnum\<close>: \<open>NaN\<close>, the two infinities, and the finite values as exact rationals.
  The rounding of IEEE-754 doubles, overflow of finite arithmetic to an infinity and the
  negative zero are outside this model: a finite result below is the real number that the
  code's double approximates.
\<close>

datatype jsnum = NaN | Number rat | PosInfinity | NegInfinity

fun isNaN :: "jsnum \<Rightarrow> bool" where
  "isNaN NaN = True"
| "isNaN _ = False"

fun js_neg :: "jsnum \<Rightarrow> jsnum" where
  "js_neg NaN = NaN"
| "js_neg (Number a) = Number (- a)"
| "js_neg PosInfinity = NegInfinity"
| "js_neg NegInfinity = PosInfinity"



fun js_div :: "jsnum \<Rightarrow> jsnum \<Rightarrow> jsnum" where
  "js_div NaN _ = NaN"
| "js_div _ NaN = NaN"
| "js_div (Number a) (Number b) =
     (if b = 0 then (if a = 0 then NaN else if 0 < a then PosInfinity else NegInfinity)
      else Number (a / b))"
| "js_div (Number a) _ = Number 0"
| "js_div x (Number b) = (if 0 \<le> b then x else js_neg x)"
| "js_div _ _ = NaN"

text \<open>\<open>js_ge x y\<close> is \<open>x >= y\<close> and \<open>js_lt x y\<close> is \<open>x < y\<close>: both are false on \<open>NaN\<close>.\<close>

fun js_ge :: "jsnum \<Rightarrow> jsnum \<Rightarrow> bool" where
  "js_ge NaN _ = False"
| "js_ge _ NaN = False"
| "js_ge (Number a) (Number b) = (b \<le> a)"
| "js_ge PosInfinity _ = True"
| "js_ge _ NegInfinity = True"
| "js_ge _ _ = False"

fun js_lt :: "jsnum \<Rightarrow> jsnum \<Rightarrow> bool" where
  "js_lt NaN _ = False"
| "js_lt _ NaN = False"
| "js_lt (Number a) (Number b) = (a < b)"
| "js_lt PosInfinity _ = False"
| "js_lt _ NegInfinity = False"
| "js_lt _ _ = True"



subsection \<open>Strings\<close>

text \<open>
  Strings are lists of 8-bit characters read as Latin-1 code points. \<open>toLowerCase\<close>
  maps \<open>A\<close>..\<open>Z\<close> and the Latin-1 capitals to their small letters.
\<close>

definition toLowerCase_char :: "char \<Rightarrow> char" where
  "toLowerCase_char c =
     (let n = (of_char c :: nat)
      in if (65 \<le> n \<and> n \<le> 90) \<or> (192 \<le> n \<and> n \<le> 222 \<and> n \<noteq> 215)
         then char_of (n + 32) else c)"

definition toLowerCase :: "string \<Rightarrow> string" where
  "toLowerCase s = map toLowerCase_char s"

definition is_whitespace :: "char \<Rightarrow> bool" where
  "is_whitespace c = ((of_char c :: nat) \<in> {9, 10, 11, 12, 13, 32, 160})"

definition trimStart :: "string \<Rightarrow> string" where
  "trimStart s = dropWhile is_whitespace s"

definition trim :: "string \<Rightarrow> string" where
  "trim s = rev (dropWhile is_whitespace (rev (dropWhile is_whitespace s)))"

definition is_digit :: "char \<Rightarrow> bool" where
  "is_digit c = (let n = (of_char c :: nat) in 48 \<le> n \<and> n \<le> 57)"

definition digits_val :: "string \<Rightarrow> nat" where
  "digits_val ds = foldl (\<lambda>a c. 10 * a + (of_char c - 48)) 0 ds"

definition pow10 :: "int \<Rightarrow> rat" where
  "pow10 e = (if 0 \<le> e then 10 ^ nat e else 1 / 10 ^ nat (- e))"

text \<open>The exponent part \<open>e\<close>, optional sign, digits; it counts only when digits follow.\<close>

definition exponent_part :: "string \<Rightarrow> int" where
  "exponent_part s =
     (case s of
        [] \<Rightarrow> 0
      | c # r \<Rightarrow>
          if c = CHR ''e'' \<or> c = CHR ''E'' then
            (let neg = (case r of [] \<Rightarrow> False | d # _ \<Rightarrow> d = CHR ''-'');
                 signed = (case r of [] \<Rightarrow> False | d # _ \<Rightarrow> d = CHR ''-'' \<or> d = CHR ''+'');
                 ds = takeWhile is_digit (if signed then tl r else r)
             in if ds = [] then 0
                else if neg then - int (digits_val ds) else int (digits_val ds))
          else 0)"

text \<open>The longest prefix that is an unsigned decimal literal, as \<open>parseFloat\<close> reads it.\<close>

definition unsigned_decimal :: "string \<Rightarrow> jsnum" where
  "unsigned_decimal s =
     (if take 8 s = ''Infinity'' then PosInfinity
      else
        let ip = takeWhile is_digit s;
            r1 = dropWhile is_digit s;
            dotted = (case r1 of [] \<Rightarrow> False | c # _ \<Rightarrow> c = CHR ''.'');
            fp = (if dotted then takeWhile is_digit (tl r1) else []);
            r2 = (if dotted then dropWhile is_digit (tl r1) else r1)
        in if ip = [] \<and> fp = [] then NaN
           else Number ((of_nat (digits_val ip) + of_nat (digits_val fp) / 10 ^ length fp)
                        * pow10 (exponent_part r2)))"

definition parseFloat :: "string \<Rightarrow> jsnum" where
  "parseFloat s =
     (case trimStart s of
        [] \<Rightarrow> NaN
      | c # r \<Rightarrow>
          if c = CHR ''-'' then js_neg (unsigned_decimal r)
          else if c = CHR ''+'' then unsigned_decimal r
          else unsigned_decimal (c # r))"

text \<open>
  A nullable text column arrives as a string or as \<open>null\<close>; \<open>parseFloat(null)\<close> reads the
  text \<open>null\<close> and gives \<open>NaN\<close>.
\<close>

definition parseFloat_col :: "string option \<Rightarrow> jsnum" where
  "parseFloat_col v = (case v of None \<Rightarrow> NaN | Some s \<Rightarrow> parseFloat s)"

text \<open>\<open>parseInt(s, 10)\<close>: \<open>None\<close> stands for \<open>NaN\<close>.\<close>

definition parseInt10 :: "string \<Rightarrow> int option" where
  "parseInt10 s =
     (let t = trimStart s;
          neg = (case t of [] \<Rightarrow> False | c # _ \<Rightarrow> c = CHR ''-'');
          signed = (case t of [] \<Rightarrow> False | c # _ \<Rightarrow> c = CHR ''-'' \<or> c = CHR ''+'');
          ds = takeWhile is_digit (if signed then tl t else t)
      in if ds = [] then None
         else Some (if neg then - int (digits_val ds) else int (digits_val ds)))"

text \<open>A value of a JSON request body.\<close>

datatype jsval = JUndefined | JNull | JBool bool | JNumber jsnum | JString string

fun isInteger :: "jsnum \<Rightarrow> bool" where
  "isInteger (Number x) = (of_int \<lfloor>x\<rfloor> = x)"
| "isInteger _ = False"

section \<open>Cost calculator (backend/dist/utils/costCalculator.js)\<close>



definition FALLBACK_NEUROSWITCH_CLASSIFIER_FEE_DOLLARS :: jsnum where
  "FALLBACK_NEUROSWITCH_CLASSIFIER_FEE_DOLLARS = Number (1 / 1000)"



text \<open>
  The tables of schema.sql that the modelled code reads and writes, with the columns its
  queries use. Numeric columns of \<open>models\<close> arrive in JavaScript as text (or
  \<open>null\<close>); \<open>app_config\<close> has a unique key and a nullable text value;
  \<open>users.id\<close> and \<open>user_credits.user_id\<close> are primary keys. Time stamps and
  serial ids of the log tables are left out.
\<close>

record model_row =
  model_id :: int
  model_name :: string
  id_string :: string
  provider :: string
  input_cost_per_million_tokens :: "string option"
  output_cost_per_million_tokens :: "string option"
  is_active :: "bool option"

record user_row =
  email :: string
  display_name :: "string option"
  role :: "string option"

record credit_transaction =
  tx_user_id :: int
  tx_amount_cents :: int
  tx_method :: string
  tx_status :: string
  tx_description :: "string option"

record admin_action_log =
  admin_user_id :: int
  action_type :: string
  target_entity_type :: string
  target_entity_id :: string
  details :: "(string \<times> jsval) list"
  summary :: "string option"

record database =
  users :: "int \<rightharpoonup> user_row"
  user_credits :: "int \<rightharpoonup> int"
  credit_transactions :: "credit_transaction list"
  admin_actions_logs :: "admin_action_log list"
  models :: "model_row list"
  app_config :: "string \<rightharpoonup> string option"

datatype pricing_query = ModelsQuery | PrimeQuery | FeeQuery

text \<open>
  The calculator's first argument \<open>rejects\<close> says which of its queries reject
  (connection lost, database down): the awaited call throws.
\<close>

datatype js_error = DbError

definition try_catch :: "js_error + 'a \<Rightarrow> (js_error \<Rightarrow> js_error + 'a) \<Rightarrow> js_error + 'a" where
  "try_catch body handler = (case body of Inl e \<Rightarrow> handler e | Inr v \<Rightarrow> Inr v)"

definition bind_result :: "js_error + 'a \<Rightarrow> ('a \<Rightarrow> js_error + 'b) \<Rightarrow> js_error + 'b" where
  "bind_result m f = (case m of Inl e \<Rightarrow> Inl e | Inr v \<Rightarrow> f v)"

text \<open>\<open>SELECT value FROM app_config WHERE key = $1\<close>\<close>

definition select_app_config ::
  "(pricing_query \<Rightarrow> bool) \<Rightarrow> database \<Rightarrow> pricing_query \<Rightarrow> string \<Rightarrow> js_error + string option list" where
  "select_app_config rejects db q k =
     (if rejects q then Inl DbError
      else Inr (case app_config db k of None \<Rightarrow> [] | Some v \<Rightarrow> [v]))"









definition getNeuroSwitchClassifierFee ::
  "(pricing_query \<Rightarrow> bool) \<Rightarrow> database \<Rightarrow> js_error + jsnum" where
  "getNeuroSwitchClassifierFee rejects db =
     try_catch
       (bind_result (select_app_config rejects db FeeQuery ''neuroswitch_classifier_fee_cents'')
          (\<lambda>rows. case rows of
             [] \<Rightarrow> Inr FALLBACK_NEUROSWITCH_CLASSIFIER_FEE_DOLLARS
           | v # _ \<Rightarrow>
               (let feeCents = parseFloat_col v
                in if \<not> isNaN feeCents \<and> js_ge feeCents (Number 0)
                   then Inr (js_div feeCents (Number 100))
                   else Inr FALLBACK_NEUROSWITCH_CLASSIFIER_FEE_DOLLARS)))
       (\<lambda>dbError. Inr FALLBACK_NEUROSWITCH_CLASSIFIER_FEE_DOLLARS)"

section \<open>Admin routes on users (adminApi/users.ts)\<close>

subsection \<open>Statements against the database\<close>

text \<open>
  The columns \<open>user_credits.balance_cents\<close>, \<open>credit_transactions.amount_cents\<close> and
  the user ids are PostgreSQL \<open>INTEGER\<close>: a parameter or a result outside the 32-bit
  range makes the statement fail, it does not wrap.
\<close>

definition INT4_MIN :: int where
  "INT4_MIN = - 2147483648"

definition INT4_MAX :: int where
  "INT4_MAX = 2147483647"

definition in_int4 :: "int \<Rightarrow> bool" where
  "in_int4 x = (INT4_MIN \<le> x \<and> x \<le> INT4_MAX)"

text \<open>\<open>SELECT balance_cents FROM user_credits WHERE user_id = $1\<close>\<close>

definition select_balance_cents :: "database \<Rightarrow> int \<Rightarrow> js_error + int list" where
  "select_balance_cents db uid =
     (if \<not> in_int4 uid then Inl DbError
      else Inr (case user_credits db uid of None \<Rightarrow> [] | Some b \<Rightarrow> [b]))"

text \<open>\<open>SELECT id FROM users WHERE id = $1\<close>\<close>

definition select_user_id :: "database \<Rightarrow> int \<Rightarrow> js_error + int list" where
  "select_user_id db uid =
     (if \<not> in_int4 uid then Inl DbError
      else Inr (case users db uid of None \<Rightarrow> [] | Some _ \<Rightarrow> [uid]))"

text \<open>
  \<open>INSERT INTO user_credits (user_id, balance_cents, updated_at) VALUES ($1, $2, NOW())
  ON CONFLICT (user_id) DO UPDATE SET balance_cents = user_credits.balance_cents + $3
  RETURNING balance_cents\<close>. The row inserted must reference an existing user.
\<close>

definition upsert_balance_add ::
  "database \<Rightarrow> int \<Rightarrow> int \<Rightarrow> int \<Rightarrow> js_error + (database \<times> int)" where
  "upsert_balance_add db uid inserted added =
     (if \<not> (in_int4 uid \<and> in_int4 inserted \<and> in_int4 added) then Inl DbError
      else case user_credits db uid of
             None \<Rightarrow>
               if users db uid = None then Inl DbError
               else Inr (db\<lparr>user_credits := (user_credits db)(uid \<mapsto> inserted)\<rparr>, inserted)
           | Some b \<Rightarrow>
               if \<not> in_int4 (b + added) then Inl DbError
               else Inr (db\<lparr>user_credits := (user_credits db)(uid \<mapsto> b + added)\<rparr>, b + added))"

text \<open>
  \<open>INSERT INTO user_credits (user_id, balance_cents, updated_at) VALUES ($1, $2, NOW())
  ON CONFLICT (user_id) DO UPDATE SET balance_cents = $2 RETURNING balance_cents\<close>
\<close>

definition upsert_balance_set :: "database \<Rightarrow> int \<Rightarrow> int \<Rightarrow> js_error + (database \<times> int)" where
  "upsert_balance_set db uid v =
     (if \<not> (in_int4 uid \<and> in_int4 v) then Inl DbError
      else if user_credits db uid = None \<and> users db uid = None then Inl DbError
      else Inr (db\<lparr>user_credits := (user_credits db)(uid \<mapsto> v)\<rparr>, v))"

text \<open>
  \<open>INSERT INTO credit_transactions (user_id, amount_cents, method, status, description,
  created_at) VALUES ($1, $2, 'admin_adjustment', 'completed', $3, NOW())\<close>
\<close>

definition insert_admin_adjustment ::
  "database \<Rightarrow> int \<Rightarrow> int \<Rightarrow> string \<Rightarrow> js_error + database" where
  "insert_admin_adjustment db uid amount descr =
     (if \<not> (in_int4 uid \<and> in_int4 amount) then Inl DbError
      else if users db uid = None then Inl DbError
      else Inr (db\<lparr>credit_transactions := credit_transactions db @
                  [\<lparr>tx_user_id = uid, tx_amount_cents = amount, tx_method = ''admin_adjustment'',
                    tx_status = ''completed'', tx_description = Some descr\<rparr>]\<rparr>))"

text \<open>\<open>SELECT role FROM users WHERE id = $1\<close>\<close>

definition select_role :: "database \<Rightarrow> int \<Rightarrow> js_error + string option list" where
  "select_role db uid =
     (if \<not> in_int4 uid then Inl DbError
      else Inr (case users db uid of None \<Rightarrow> [] | Some u \<Rightarrow> [role u]))"

text \<open>
  \<open>UPDATE users SET role = $1, updated_at = NOW() WHERE id = $2
  RETURNING id, email, role, display_name\<close>; \<open>role\<close> is \<open>VARCHAR(50)\<close>.
\<close>

definition update_users_role ::
  "database \<Rightarrow> string \<Rightarrow> int \<Rightarrow> js_error + (database \<times> (int \<times> user_row) list)" where
  "update_users_role db r uid =
     (if \<not> in_int4 uid \<or> 50 < length r then Inl DbError
      else case users db uid of
             None \<Rightarrow> Inr (db, [])
           | Some u \<Rightarrow>
               Inr (db\<lparr>users := (users db)(uid \<mapsto> u\<lparr>role := Some r\<rparr>)\<rparr>,
                    [(uid, u\<lparr>role := Some r\<rparr>)]))"

text \<open>The decimal text of an integer, \<open>Number.prototype.toString\<close> on an integer.\<close>

fun nat_toString :: "nat \<Rightarrow> string" where
  "nat_toString n =
     (if n < 10 then [char_of (48 + n)]
      else nat_toString (n div 10) @ [char_of (48 + n mod 10)])"

definition int_toString :: "int \<Rightarrow> string" where
  "int_toString i = (if i < 0 then CHR ''-'' # nat_toString (nat (- i)) else nat_toString (nat i))"

definition JInt :: "int \<Rightarrow> jsval" where
  "JInt i = JNumber (Number (of_int i))"

text \<open>
  Modelled from the spec: \<open>logAdminAction\<close> of utils/adminLogger, which is not among the
  sources. The spec has it record actor, action type, target type, target id, details and
  summary in the audit sink, inside the caller's transaction; here it appends that entry to
  \<open>admin_actions_logs\<close>. Whether the call throws is the caller's \<open>rejects\<close>.
\<close>

definition logAdminAction ::
  "database \<Rightarrow> int \<Rightarrow> string \<Rightarrow> string \<Rightarrow> string \<Rightarrow> (string \<times> jsval) list \<Rightarrow> string option
     \<Rightarrow> js_error + database" where
  "logAdminAction db actor action ttype tid det summ =
     Inr (db\<lparr>admin_actions_logs := admin_actions_logs db @
            [\<lparr>admin_user_id = actor, action_type = action, target_entity_type = ttype,
              target_entity_id = tid, details = det, summary = summ\<rparr>]\<rparr>)"

subsection \<open>Handlers\<close>

text \<open>
  Every awaited call of a handler can throw. \<open>rejects c\<close> says that call \<open>c\<close> does:
  \<open>QUERY n\<close> is the handler's \<open>n\<close>-th data statement in the order of its text,
  \<open>ROLLBACK\<close> the one before an early return, \<open>ROLLBACK_IN_CATCH\<close> the one in the
  \<open>catch\<close> block.
\<close>

datatype call = CONNECT | BEGIN | QUERY nat | LOG_ADMIN_ACTION | COMMIT | ROLLBACK | ROLLBACK_IN_CATCH

definition await :: "(call \<Rightarrow> bool) \<Rightarrow> call \<Rightarrow> js_error + 'a \<Rightarrow> js_error + 'a" where
  "await rejects c stmt = (if rejects c then Inl DbError else stmt)"

text \<open>
  What the client sees: a status code with a body, or nothing when an exception leaves the
  handler.
\<close>

datatype body =
    Error string
  | NegativeBalance string int
  | CreditsAdjusted int int int int
  | RoleUnchanged string
  | RoleUpdated "(int \<times> user_row) option"
  | ModelUnchanged model_row
  | ModelUpdated "model_row option"

datatype outcome = Replied nat body | Unhandled js_error

text \<open>
  A handler opens its transaction on the database as it finds it. Leaving by
  \<open>ROLLBACK\<close>, or without \<open>COMMIT\<close>, gives that database back; \<open>COMMIT\<close> gives the
  one the statements built. \<open>in_transaction\<close> is the handler from \<open>pool.connect()\<close>
  on: the \<open>try\<close> block \<open>block\<close> and the \<open>catch\<close> that answers 500 with \<open>message\<close>.
\<close>

definition in_transaction ::
  "(call \<Rightarrow> bool) \<Rightarrow> database \<Rightarrow> string \<Rightarrow> js_error + (outcome \<times> database)
     \<Rightarrow> outcome \<times> database" where
  "in_transaction rejects db message block =
     (if rejects CONNECT then (Unhandled DbError, db)
      else case block of
             Inr result \<Rightarrow> result
           | Inl e \<Rightarrow>
               if rejects ROLLBACK_IN_CATCH then (Unhandled DbError, db)
               else (Replied 500 (Error message), db))"

text \<open>An early return of a \<open>try\<close> block: \<open>ROLLBACK\<close>, then the reply.\<close>

definition rollback_reply ::
  "(call \<Rightarrow> bool) \<Rightarrow> database \<Rightarrow> nat \<Rightarrow> body \<Rightarrow> js_error + (outcome \<times> database)" where
  "rollback_reply rejects db code b = await rejects ROLLBACK (Inr (Replied code b, db))"

definition invalid_amount_cents :: "jsval \<Rightarrow> bool" where
  "invalid_amount_cents v =
     (case v of JNumber n \<Rightarrow> \<not> isInteger n \<or> n = Number 0 | _ \<Rightarrow> True)"

definition invalid_nonempty_string :: "jsval \<Rightarrow> bool" where
  "invalid_nonempty_string v = (case v of JString s \<Rightarrow> s = [] \<or> trim s = [] | _ \<Rightarrow> True)"

fun int_value :: "jsval \<Rightarrow> int" where
  "int_value (JNumber (Number x)) = \<lfloor>x\<rfloor>"
| "int_value _ = 0"

fun string_value :: "jsval \<Rightarrow> string" where
  "string_value (JString s) = s"
| "string_value _ = []"

text \<open>The error text of the negative-balance reply; the body carries the balance as well.\<close>

definition negative_balance_error :: "int \<Rightarrow> string" where
  "negative_balance_error current =
     ''Adjustment would result in a negative balance. User has '' @ int_toString current
     @ '' cents. Maximum possible deduction is '' @ int_toString current @ '' cents.''"

text \<open>\<open>creditResult.rows[0]?.balance_cents || 0\<close>\<close>

definition currentBalanceCents :: "int list \<Rightarrow> int" where
  "currentBalanceCents rows = (case rows of [] \<Rightarrow> 0 | b # _ \<Rightarrow> b)"

text \<open>
  Step 4 of the handler, "Update user_credits table": the three upserts the source
  runs one after the other, each on the database the one before left.
\<close>

definition update_user_credits ::
  "(call \<Rightarrow> bool) \<Rightarrow> database \<Rightarrow> int \<Rightarrow> int \<Rightarrow> int \<Rightarrow> js_error + (database \<times> int)" where
  "update_user_credits rejects db targetUserId amount projectedNewBalance =
     bind_result (await rejects (QUERY 3)
                    (upsert_balance_add db targetUserId amount amount)) (\<lambda>(db1, _).
     bind_result (await rejects (QUERY 4)
                    (upsert_balance_add db1 targetUserId projectedNewBalance amount)) (\<lambda>(db2, _).
     await rejects (QUERY 5) (upsert_balance_set db2 targetUserId projectedNewBalance)))"

text \<open>The \<open>try\<close> block of \<open>POST /:userId/adjust-credits\<close>, after validation.\<close>

definition adjust_credits_block ::
  "(call \<Rightarrow> bool) \<Rightarrow> database \<Rightarrow> int \<Rightarrow> int \<Rightarrow> int \<Rightarrow> string
     \<Rightarrow> js_error + (outcome \<times> database)" where
  "adjust_credits_block rejects db adminUserId targetUserId amount reason =
     bind_result (await rejects BEGIN (Inr ())) (\<lambda>_.
     bind_result (await rejects (QUERY 1) (select_balance_cents db targetUserId)) (\<lambda>creditRows.
     bind_result
       (if creditRows = []
        then bind_result (await rejects (QUERY 2) (select_user_id db targetUserId))
               (\<lambda>userCheck. Inr (userCheck = []))
        else Inr False) (\<lambda>userMissing.
     if userMissing then rollback_reply rejects db 404 (Error ''Target user not found.'')
     else
       let current = currentBalanceCents creditRows;
           projectedNewBalance = current + amount
       in if projectedNewBalance < 0
          then rollback_reply rejects db 400
                 (NegativeBalance (negative_balance_error current) current)
          else
            bind_result (update_user_credits rejects db targetUserId amount projectedNewBalance)
              (\<lambda>(db3, newBalanceCents).
            bind_result (await rejects (QUERY 6)
                           (insert_admin_adjustment db3 targetUserId amount
                              (''Admin Credit Adjustment: '' @ reason))) (\<lambda>db4.
            bind_result (await rejects LOG_ADMIN_ACTION
                           (logAdminAction db4 adminUserId ''USER_CREDIT_ADJUSTMENT'' ''USER''
                              (int_toString targetUserId)
                              [(''adjusted_amount_cents'', JInt amount),
                               (''previous_balance_cents'', JInt current),
                               (''new_balance_cents'', JInt newBalanceCents),
                               (''reason'', JString reason)]
                              (Some reason))) (\<lambda>db5.
            bind_result (await rejects COMMIT (Inr ())) (\<lambda>_.
            Inr (Replied 200 (CreditsAdjusted targetUserId current amount newBalanceCents),
                 db5))))))))"

text \<open>
  \<open>POST /:userId/adjust-credits\<close>. \<open>adminUser\<close> is the id of \<open>req.user\<close>, \<open>None\<close>
  when the user or its id is missing; the other arguments are the route parameter and the
  two fields of the body.
\<close>

definition adjust_credits ::
  "(call \<Rightarrow> bool) \<Rightarrow> database \<Rightarrow> int option \<Rightarrow> string \<Rightarrow> jsval \<Rightarrow> jsval
     \<Rightarrow> outcome \<times> database" where
  "adjust_credits rejects db adminUser targetUserIdString amount_cents reason =
     (case adminUser of
        None \<Rightarrow> (Replied 401 (Error ''Admin user ID not found in token, unauthorized.''), db)
      | Some adminUserId \<Rightarrow>
          (case parseInt10 targetUserIdString of
             None \<Rightarrow> (Replied 400 (Error ''Invalid target user ID format.''), db)
           | Some targetUserId \<Rightarrow>
               if invalid_amount_cents amount_cents
               then (Replied 400 (Error ''Invalid amount_cents. Must be a non-zero integer.''), db)
               else if invalid_nonempty_string reason
               then (Replied 400
                       (Error ''Reason for credit adjustment is required and cannot be empty.''), db)
               else in_transaction rejects db ''Failed to adjust user credits.''
                      (adjust_credits_block rejects db adminUserId targetUserId
                         (int_value amount_cents) (string_value reason))))"

definition VALID_ROLES :: "string list" where
  "VALID_ROLES = [''admin'', ''pro'', ''user'', ''sub_user'', ''tester'']"

definition invalid_role :: "jsval \<Rightarrow> bool" where
  "invalid_role v =
     (case v of JString s \<Rightarrow> s = [] \<or> toLowerCase s \<notin> set VALID_ROLES | _ \<Rightarrow> True)"

text \<open>\<open>roleChangeSummary || undefined\<close>\<close>

definition summary_or_undefined :: "jsval \<Rightarrow> string option" where
  "summary_or_undefined v = (case v of JString s \<Rightarrow> if s = [] then None else Some s | _ \<Rightarrow> None)"

text \<open>The \<open>try\<close> block of \<open>PUT /:userId/role\<close>.\<close>

definition update_role_block ::
  "(call \<Rightarrow> bool) \<Rightarrow> database \<Rightarrow> int \<Rightarrow> int \<Rightarrow> string \<Rightarrow> jsval
     \<Rightarrow> js_error + (outcome \<times> database)" where
  "update_role_block rejects db adminUserId targetUserId normalizedNewRole roleChangeSummary =
     bind_result (await rejects BEGIN (Inr ())) (\<lambda>_.
     bind_result (await rejects (QUERY 1) (select_role db targetUserId)) (\<lambda>userRows.
     case userRows of
       [] \<Rightarrow> rollback_reply rejects db 404 (Error ''Target user not found.'')
     | currentRole # _ \<Rightarrow>
         if currentRole = Some normalizedNewRole
         then rollback_reply rejects db 200 (RoleUnchanged normalizedNewRole)
         else
           bind_result (await rejects (QUERY 2)
                          (update_users_role db normalizedNewRole targetUserId)) (\<lambda>(db1, updated).
           bind_result (await rejects LOG_ADMIN_ACTION
                          (logAdminAction db1 adminUserId ''USER_ROLE_UPDATED'' ''USER''
                             (int_toString targetUserId)
                             [(''old_role'', case currentRole of None \<Rightarrow> JNull | Some r \<Rightarrow> JString r),
                              (''new_role'', JString normalizedNewRole),
                              (''target_user_id'', JInt targetUserId)]
                             (summary_or_undefined roleChangeSummary))) (\<lambda>db2.
           bind_result (await rejects COMMIT (Inr ())) (\<lambda>_.
           Inr (Replied 200 (RoleUpdated (case updated of [] \<Rightarrow> None | r # _ \<Rightarrow> Some r)),
                db2))))))"

definition update_role ::
  "(call \<Rightarrow> bool) \<Rightarrow> database \<Rightarrow> int option \<Rightarrow> string \<Rightarrow> jsval \<Rightarrow> jsval
     \<Rightarrow> outcome \<times> database" where
  "update_role rejects db adminUser targetUserIdString newRole roleChangeSummary =
     (case adminUser of
        None \<Rightarrow> (Replied 401 (Error ''Admin user ID not found in token, unauthorized.''), db)
      | Some adminUserId \<Rightarrow>
          (case parseInt10 targetUserIdString of
             None \<Rightarrow> (Replied 400 (Error ''Invalid target user ID format.''), db)
           | Some targetUserId \<Rightarrow>
               if invalid_role newRole
               then (Replied 400
                       (Error ''Invalid role. Must be one of: admin, pro, user, sub_user, tester''), db)
               else
                 let normalizedNewRole = toLowerCase (string_value newRole)
                 in if targetUserId = adminUserId \<and> normalizedNewRole \<noteq> ''admin''
                    then (Replied 403
                            (Error ''Admins cannot demote themselves from the admin role.''), db)
                    else in_transaction rejects db ''Failed to update user role.''
                           (update_role_block rejects db adminUserId targetUserId
                              normalizedNewRole roleChangeSummary)))"

section \<open>Admin route on models (adminApi/models.ts)\<close>

text \<open>\<open>parseFloat(x as string)\<close> on a field of the body: a number is printed and read back.\<close>

definition parseFloat_val :: "jsval \<Rightarrow> jsnum" where
  "parseFloat_val v = (case v of JString s \<Rightarrow> parseFloat s | JNumber n \<Rightarrow> n | _ \<Rightarrow> NaN)"

text \<open>\<open>===\<close> on two numbers\<close>

definition strict_equal :: "jsnum \<Rightarrow> jsnum \<Rightarrow> bool" where
  "strict_equal x y = (\<not> isNaN x \<and> \<not> isNaN y \<and> x = y)"

text \<open>
  \<open>SELECT name, input_cost_per_million_tokens, output_cost_per_million_tokens, is_active
  FROM models WHERE id = $1\<close>
\<close>

definition select_model :: "database \<Rightarrow> int \<Rightarrow> js_error + model_row list" where
  "select_model db mid = Inr (filter (\<lambda>m. model_id m = mid) (models db))"

text \<open>
  \<open>UPDATE models SET input_cost_per_million_tokens = $1, output_cost_per_million_tokens =
  $2, is_active = $3, updated_at = NOW() WHERE id = $4 RETURNING *\<close>. The table
  \<open>models\<close> is not declared in schema.sql: \<open>numeric_text\<close>, the text its cost columns
  give back for a number written to them, is a parameter.
\<close>

definition update_models ::
  "(jsnum \<Rightarrow> string option) \<Rightarrow> database \<Rightarrow> jsnum \<Rightarrow> jsnum \<Rightarrow> bool \<Rightarrow> int
     \<Rightarrow> js_error + (database \<times> model_row list)" where
  "update_models numeric_text db inputCost outputCost active mid =
     (let write = (\<lambda>m. if model_id m = mid
                        then m\<lparr>input_cost_per_million_tokens := numeric_text inputCost,
                               output_cost_per_million_tokens := numeric_text outputCost,
                               is_active := Some active\<rparr>
                        else m)
      in Inr (db\<lparr>models := map write (models db)\<rparr>,
              map write (filter (\<lambda>m. model_id m = mid) (models db))))"

fun bool_value :: "jsval \<Rightarrow> bool option" where
  "bool_value (JBool b) = Some b"
| "bool_value _ = None"

text \<open>The \<open>try\<close> block of \<open>PUT /:modelId\<close>.\<close>

definition update_model_block ::
  "(call \<Rightarrow> bool) \<Rightarrow> (jsnum \<Rightarrow> string option) \<Rightarrow> database \<Rightarrow> int \<Rightarrow> int \<Rightarrow> jsnum \<Rightarrow> jsnum
     \<Rightarrow> bool \<Rightarrow> js_error + (outcome \<times> database)" where
  "update_model_block rejects numeric_text db adminUserId targetModelId inputCost outputCost active =
     bind_result (await rejects BEGIN (Inr ())) (\<lambda>_.
     bind_result (await rejects (QUERY 1) (select_model db targetModelId)) (\<lambda>modelRows.
     case modelRows of
       [] \<Rightarrow> rollback_reply rejects db 404 (Error ''Model not found.'')
     | currentModel # _ \<Rightarrow>
         let oldInputCost = parseFloat_col (input_cost_per_million_tokens currentModel);
             oldOutputCost = parseFloat_col (output_cost_per_million_tokens currentModel);
             oldIsActive = is_active currentModel
         in if strict_equal oldInputCost inputCost \<and> strict_equal oldOutputCost outputCost
               \<and> oldIsActive = Some active
            then rollback_reply rejects db 200 (ModelUnchanged currentModel)
            else
              bind_result (await rejects (QUERY 2)
                             (update_models numeric_text db inputCost outputCost active
                                targetModelId)) (\<lambda>(db1, updated).
              bind_result (await rejects LOG_ADMIN_ACTION
                             (logAdminAction db1 adminUserId ''MODEL_CONFIG_UPDATED'' ''MODEL''
                                (int_toString targetModelId)
                                [(''model_id'', JInt targetModelId),
                                 (''model_name'', JString (model_name currentModel)),
                                 (''old_input_cost'', JNumber oldInputCost),
                                 (''new_input_cost'', JNumber inputCost),
                                 (''old_output_cost'', JNumber oldOutputCost),
                                 (''new_output_cost'', JNumber outputCost),
                                 (''old_is_active'',
                                    case oldIsActive of None \<Rightarrow> JNull | Some b \<Rightarrow> JBool b),
                                 (''new_is_active'', JBool active)]
                                (Some (''Updated configuration for model ''
                                       @ model_name currentModel @ '' (ID: ''
                                       @ int_toString targetModelId @ '')'')))) (\<lambda>db2.
              bind_result (await rejects COMMIT (Inr ())) (\<lambda>_.
              Inr (Replied 200 (ModelUpdated (case updated of [] \<Rightarrow> None | m # _ \<Rightarrow> Some m)),
                   db2))))))"

definition update_model ::
  "(call \<Rightarrow> bool) \<Rightarrow> (jsnum \<Rightarrow> string option) \<Rightarrow> database \<Rightarrow> int option \<Rightarrow> string
     \<Rightarrow> jsval \<Rightarrow> jsval \<Rightarrow> jsval \<Rightarrow> outcome \<times> database" where
  "update_model rejects numeric_text db adminUser modelId input_cost output_cost active =
     (case adminUser of
        None \<Rightarrow> (Replied 401 (Error ''Admin user ID not found, unauthorized.''), db)
      | Some adminUserId \<Rightarrow>
          (case parseInt10 modelId of
             None \<Rightarrow> (Replied 400 (Error ''Invalid model ID format.''), db)
           | Some targetModelId \<Rightarrow>
               let inputCost = parseFloat_val input_cost;
                   outputCost = parseFloat_val output_cost
               in if isNaN inputCost \<or> js_lt inputCost (Number 0)
                     \<or> isNaN outputCost \<or> js_lt outputCost (Number 0)
                  then (Replied 400
                          (Error ''Invalid cost values. Must be non-negative numbers.''), db)
                  else case bool_value active of
                         None \<Rightarrow>
                           (Replied 400
                              (Error ''Invalid is_active value. Must be true or false.''), db)
                       | Some b \<Rightarrow>
                           in_transaction rejects db ''Failed to update model configuration.''
                             (update_model_block rejects numeric_text db adminUserId
                                targetModelId inputCost outputCost b)))"

section \<open>Notions the properties are stated with\<close>

text \<open>A database whose every call answers.\<close>

definition healthy :: "'c \<Rightarrow> bool" where
  "healthy c = False"

fun succeeded :: "outcome \<Rightarrow> bool" where
  "succeeded (Replied code _) = (code = 200)"
| "succeeded (Unhandled _) = False"

definition has_role :: "database \<Rightarrow> int \<Rightarrow> string \<Rightarrow> bool" where
  "has_role db uid r = (case users db uid of None \<Rightarrow> False | Some u \<Rightarrow> role u = Some r)"




text \<open>A database on which every call fails.\<close>

definition down :: "'c \<Rightarrow> bool" where
  "down c = True"

subsection \<open>Concrete databases for the scenarios\<close>

definition empty_db :: database where
  "empty_db = \<lparr>users = Map.empty, user_credits = Map.empty, credit_transactions = [],
                admin_actions_logs = [], models = [], app_config = Map.empty\<rparr>"

definition gemini_flash :: model_row where
  "gemini_flash = \<lparr>model_id = 1, model_name = ''Gemini 1.5 Flash'',
                    id_string = ''google/gemini-1.5-flash'', provider = ''Google'',
                    input_cost_per_million_tokens = Some ''1.00'',
                    output_cost_per_million_tokens = Some ''2.00'',
                    is_active = Some True\<rparr>"

text \<open>Prime 20 percent, classifier fee 1 cent, one model with rates 1.00 and 2.00.\<close>

definition pricing_db :: database where
  "pricing_db = empty_db
     \<lparr>models := [gemini_flash],
      app_config := [''pricing_prime_percentage'' \<mapsto> Some ''20'',
                     ''neuroswitch_classifier_fee_cents'' \<mapsto> Some ''1'']\<rparr>"

definition alice :: user_row where
  "alice = \<lparr>email = ''alice@example.com'', display_name = Some ''Alice'', role = Some ''user''\<rparr>"

definition bob :: user_row where
  "bob = \<lparr>email = ''bob@example.com'', display_name = Some ''Bob'', role = Some ''admin''\<rparr>"

text \<open>User 7 has a balance of 100 cents; user 8 exists and has no ledger row.\<close>

definition ledger_db :: database where
  "ledger_db = empty_db\<lparr>users := [7 \<mapsto> alice, 8 \<mapsto> bob], user_credits := [7 \<mapsto> 100]\<rparr>"

text \<open>User 7 holds the largest balance the column can store.\<close>

definition full_db :: database where
  "full_db = empty_db\<lparr>users := [7 \<mapsto> alice], user_credits := [7 \<mapsto> 2147483647]\<rparr>"

text \<open>User 7 holds 2,000,000,000 cents.\<close>

definition rich_db :: database where
  "rich_db = empty_db\<lparr>users := [7 \<mapsto> alice], user_credits := [7 \<mapsto> 2000000000]\<rparr>"

definition carol :: user_row where
  "carol = \<lparr>email = ''carol@example.com'', display_name = Some ''Carol'', role = Some ''admin''\<rparr>"

text \<open>User 1 has the role \<open>user\<close>, user 2 is the only admin; one model is configured.\<close>

definition staff_db :: database where
  "staff_db = empty_db\<lparr>users := [1 \<mapsto> alice, 2 \<mapsto> carol], models := [gemini_flash]\<rparr>"

section \<open>Properties of the cost calculator\<close>


















text \<open>
  C8. \<open>getNeuroSwitchClassifierFee\<close> always returns a number, and the number is not
  negative; with the key present and its value a non-negative number it returns the value
  divided by 100; with the query failing, the key missing or the value not a number or
  negative it returns 0.001.
\<close>

theorem classifier_fee:
  "(\<exists>fee. getNeuroSwitchClassifierFee rejects db = Inr fee \<and> js_ge fee (Number 0))
   \<and> (\<not> rejects FeeQuery \<and> app_config db ''neuroswitch_classifier_fee_cents'' = Some v
        \<and> \<not> isNaN (parseFloat_col v) \<and> js_ge (parseFloat_col v) (Number 0) \<longrightarrow>
        getNeuroSwitchClassifierFee rejects db = Inr (js_div (parseFloat_col v) (Number 100)))
   \<and> (rejects FeeQuery \<or> app_config db ''neuroswitch_classifier_fee_cents'' = None
        \<or> (app_config db ''neuroswitch_classifier_fee_cents'' = Some v
            \<and> (isNaN (parseFloat_col v) \<or> \<not> js_ge (parseFloat_col v) (Number 0))) \<longrightarrow>
        getNeuroSwitchClassifierFee rejects db = Inr (Number (1 / 1000)))"
proof -
  have ge: "js_ge (js_div x (Number 100)) (Number 0)"
    if "\<not> isNaN x" and "js_ge x (Number 0)" for x
    using that by (cases x) simp_all
  show ?thesis
    by (auto simp: getNeuroSwitchClassifierFee_def try_catch_def bind_result_def
        select_app_config_def Let_def FALLBACK_NEUROSWITCH_CLASSIFIER_FEE_DOLLARS_def ge
        split: option.splits)
qed

text \<open>A fee of 1 cent is 0.01 dollars; with the database down the fee is 0.001 dollars.\<close>

theorem classifier_fee_witness:
  "getNeuroSwitchClassifierFee healthy pricing_db = Inr (Number (1 / 100))
   \<and> getNeuroSwitchClassifierFee down pricing_db = Inr (Number (1 / 1000))"
proof -
  have h1: "\<not> healthy FeeQuery" by (simp add: healthy_def)
  have h2: "app_config pricing_db ''neuroswitch_classifier_fee_cents'' = Some (Some ''1'')"
    by (simp add: pricing_db_def)
  have h3: "parseFloat_col (Some ''1'') = Number 1" by code_simp
  have a: "getNeuroSwitchClassifierFee healthy pricing_db = Inr (Number (1 / 100))"
    using classifier_fee [of healthy pricing_db "Some ''1''"] h1 h2 h3 by simp
  have b: "getNeuroSwitchClassifierFee down pricing_db = Inr (Number (1 / 1000))"
    using classifier_fee [of down pricing_db "Some ''1''"] by (simp add: down_def)
  show ?thesis using a b by simp
qed

section \<open>Properties of the credit adjustment\<close>

lemma invalid_amount_JInt: "invalid_amount_cents (JInt a) = (a = 0)"
  by (simp add: invalid_amount_cents_def JInt_def)

lemma int_value_JInt: "int_value (JInt a) = a"
  by (simp add: JInt_def)

text \<open>
  Within the range of the column the three upserts leave the projected balance: the
  first adds the amount, the second adds it again, the third sets the projection.
\<close>

lemma update_user_credits_in_range:
  assumes "users db uid \<noteq> None"
    and "in_int4 uid"
    and "B = currentBalanceCents (case user_credits db uid of None \<Rightarrow> [] | Some b \<Rightarrow> [b])"
    and "in_int4 B" and "0 \<le> B + a" and "B + 2 * a \<le> INT4_MAX"
  shows "update_user_credits healthy db uid a (B + a) =
         Inr (db\<lparr>user_credits := (user_credits db)(uid \<mapsto> B + a)\<rparr>, B + a)"
  using assms
  by (auto simp: update_user_credits_def bind_result_def await_def healthy_def
      upsert_balance_add_def upsert_balance_set_def currentBalanceCents_def in_int4_def
      INT4_MAX_def INT4_MIN_def split: option.splits)

lemma adjust_credits_block_rollback:
  assumes "adjust_credits_block rejects db adminUserId uid a reason = Inr (out, db')"
  shows "succeeded out \<or> db' = db"
  using assms
  unfolding adjust_credits_block_def update_user_credits_def
  by (auto simp: bind_result_def await_def rollback_reply_def Let_def
      split: if_splits sum.splits prod.splits)

lemma adjust_credits_rollback:
  assumes "\<not> succeeded (fst (adjust_credits rejects db adminUser s amount reason))"
  shows "snd (adjust_credits rejects db adminUser s amount reason) = db"
proof (cases "\<exists>adminUserId uid. adminUser = Some adminUserId \<and> parseInt10 s = Some uid
    \<and> \<not> invalid_amount_cents amount \<and> \<not> invalid_nonempty_string reason")
  case False
  then show ?thesis
    by (auto simp: adjust_credits_def split: option.splits)
next
  case True
  then obtain adminUserId uid where v: "adminUser = Some adminUserId" "parseInt10 s = Some uid"
    "\<not> invalid_amount_cents amount" "\<not> invalid_nonempty_string reason" by blast
  show ?thesis
  proof (cases "adjust_credits_block rejects db adminUserId uid (int_value amount)
                  (string_value reason)")
    case (Inl e)
    then show ?thesis using v by (simp add: adjust_credits_def in_transaction_def)
  next
    case (Inr r)
    obtain out db' where r: "r = (out, db')" by (cases r)
    with Inr adjust_credits_block_rollback have "succeeded out \<or> db' = db" by blast
    then show ?thesis using assms v Inr r
      by (auto simp: adjust_credits_def in_transaction_def split: if_splits)
  qed
qed

text \<open>
  C1 as stated fails: the balance is an \<open>INTEGER\<close> column. With a balance of
  2147483647 cents an adjustment of +1 has a non-negative projection and is answered
  500, the balance unchanged.
\<close>

theorem adjust_credits_out_of_range_counterexample:
  "users full_db 7 \<noteq> None \<and> user_credits full_db 7 = Some 2147483647
   \<and> (0::int) \<le> 2147483647 + 1
   \<and> adjust_credits healthy full_db (Some 1) ''7'' (JInt 1) (JString ''bonus'') =
       (Replied 500 (Error ''Failed to adjust user credits.''), full_db)"
proof -
  have p: "parseInt10 ''7'' = Some 7" by code_simp
  have r: "\<not> invalid_nonempty_string (JString ''bonus'')" by code_simp
  have b: "adjust_credits_block healthy full_db 1 7 1 ''bonus'' = Inl DbError"
    unfolding adjust_credits_block_def update_user_credits_def
    by (simp add: bind_result_def await_def healthy_def select_balance_cents_def
        currentBalanceCents_def upsert_balance_add_def full_db_def empty_db_def in_int4_def
        INT4_MAX_def INT4_MIN_def)
  have "adjust_credits healthy full_db (Some 1) ''7'' (JInt 1) (JString ''bonus'') =
       (Replied 500 (Error ''Failed to adjust user credits.''), full_db)"
    using p r b
    by (simp add: adjust_credits_def in_transaction_def healthy_def invalid_amount_JInt
        int_value_JInt)
  then show ?thesis by (simp add: full_db_def empty_db_def)
qed

text \<open>
  C1, amended. The target user exists, with balance \<open>B\<close> (0 when the user has no ledger
  row); ids and the stored balance are \<open>INTEGER\<close> values. For a nonzero integer amount
  \<open>a\<close> with \<open>0 \<le> B + a\<close> and \<open>B + 2 * a\<close> not above 2147483647, a valid request on a
  database that answers succeeds with 200, the stored balance becomes exactly \<open>B + a\<close>
  (0 included), exactly one row is appended to \<open>credit_transactions\<close>, with the signed
  amount, method \<open>admin_adjustment\<close> and status \<open>completed\<close>, and one audit entry is
  appended; nothing else changes.
\<close>

theorem adjust_credits_applies:
  assumes "parseInt10 targetUserIdString = Some uid"
    and "users db uid \<noteq> None"
    and "in_int4 uid"
    and "B = (case user_credits db uid of None \<Rightarrow> 0 | Some b \<Rightarrow> b)"
    and "in_int4 B"
    and "a \<noteq> 0"
    and "0 \<le> B + a"
    and "B + 2 * a \<le> INT4_MAX"
    and "\<not> invalid_nonempty_string (JString reason)"
  shows "adjust_credits healthy db (Some adminUserId) targetUserIdString (JInt a) (JString reason) =
         (Replied 200 (CreditsAdjusted uid B a (B + a)),
          db\<lparr>user_credits := (user_credits db)(uid \<mapsto> B + a),
             credit_transactions := credit_transactions db @
               [\<lparr>tx_user_id = uid, tx_amount_cents = a, tx_method = ''admin_adjustment'',
                 tx_status = ''completed'',
                 tx_description = Some (''Admin Credit Adjustment: '' @ reason)\<rparr>],
             admin_actions_logs := admin_actions_logs db @
               [\<lparr>admin_user_id = adminUserId, action_type = ''USER_CREDIT_ADJUSTMENT'',
                 target_entity_type = ''USER'', target_entity_id = int_toString uid,
                 details = [(''adjusted_amount_cents'', JInt a),
                            (''previous_balance_cents'', JInt B),
                            (''new_balance_cents'', JInt (B + a)),
                            (''reason'', JString reason)],
                 summary = Some reason\<rparr>]\<rparr>)"
proof -
  have B: "B = currentBalanceCents (case user_credits db uid of None \<Rightarrow> [] | Some b \<Rightarrow> [b])"
    using assms(4) by (simp add: currentBalanceCents_def split: option.splits)
  have ups: "update_user_credits healthy db uid a (B + a) =
         Inr (db\<lparr>user_credits := (user_credits db)(uid \<mapsto> B + a)\<rparr>, B + a)"
    using assms(2,3) B assms(5,7,8) by (rule update_user_credits_in_range)
  have a4: "in_int4 a"
    using assms(5,7,8) by (simp add: in_int4_def INT4_MAX_def INT4_MIN_def)
  have block: "adjust_credits_block healthy db adminUserId uid a reason =
      Inr (Replied 200 (CreditsAdjusted uid B a (B + a)),
          db\<lparr>user_credits := (user_credits db)(uid \<mapsto> B + a),
             credit_transactions := credit_transactions db @
               [\<lparr>tx_user_id = uid, tx_amount_cents = a, tx_method = ''admin_adjustment'',
                 tx_status = ''completed'',
                 tx_description = Some (''Admin Credit Adjustment: '' @ reason)\<rparr>],
             admin_actions_logs := admin_actions_logs db @
               [\<lparr>admin_user_id = adminUserId, action_type = ''USER_CREDIT_ADJUSTMENT'',
                 target_entity_type = ''USER'', target_entity_id = int_toString uid,
                 details = [(''adjusted_amount_cents'', JInt a),
                            (''previous_balance_cents'', JInt B),
                            (''new_balance_cents'', JInt (B + a)),
                            (''reason'', JString reason)],
                 summary = Some reason\<rparr>]\<rparr>)"
    unfolding adjust_credits_block_def
    using assms(2,3,7) a4 ups B [symmetric]
    by (auto simp: bind_result_def await_def healthy_def select_balance_cents_def
        select_user_id_def insert_admin_adjustment_def logAdminAction_def Let_def
        split: option.splits)
  show ?thesis
    using assms(1,6,9) block
    by (simp add: adjust_credits_def invalid_amount_JInt int_value_JInt in_transaction_def
        healthy_def)
qed

text \<open>
  Two instances: user 7 with 100 cents is debited 100 and ends at exactly 0; user 8,
  who has no ledger row, is credited 50 and ends at 50.
\<close>

theorem adjust_credits_applies_witness:
  "fst (adjust_credits healthy ledger_db (Some 1) ''7'' (JInt (- 100)) (JString ''refund''))
     = Replied 200 (CreditsAdjusted 7 100 (- 100) 0)
   \<and> user_credits (snd (adjust_credits healthy ledger_db (Some 1) ''7'' (JInt (- 100))
        (JString ''refund''))) 7 = Some 0
   \<and> credit_transactions (snd (adjust_credits healthy ledger_db (Some 1) ''7'' (JInt (- 100))
        (JString ''refund''))) =
       [\<lparr>tx_user_id = 7, tx_amount_cents = - 100, tx_method = ''admin_adjustment'',
         tx_status = ''completed'',
         tx_description = Some ''Admin Credit Adjustment: refund''\<rparr>]
   \<and> fst (adjust_credits healthy ledger_db (Some 1) ''8'' (JInt 50) (JString ''gift''))
     = Replied 200 (CreditsAdjusted 8 0 50 50)
   \<and> user_credits (snd (adjust_credits healthy ledger_db (Some 1) ''8'' (JInt 50)
        (JString ''gift''))) 8 = Some 50"
proof -
  have p7: "parseInt10 ''7'' = Some 7" by code_simp
  have p8: "parseInt10 ''8'' = Some 8" by code_simp
  have u7: "users ledger_db 7 \<noteq> None" by (simp add: ledger_db_def empty_db_def)
  have u8: "users ledger_db 8 \<noteq> None" by (simp add: ledger_db_def empty_db_def)
  have i7: "in_int4 7" by (simp add: in_int4_def INT4_MIN_def INT4_MAX_def)
  have i8: "in_int4 8" by (simp add: in_int4_def INT4_MIN_def INT4_MAX_def)
  have b7: "100 = (case user_credits ledger_db 7 of None \<Rightarrow> 0 | Some b \<Rightarrow> b)"
    by (simp add: ledger_db_def empty_db_def)
  have b8: "0 = (case user_credits ledger_db 8 of None \<Rightarrow> 0 | Some b \<Rightarrow> b)"
    by (simp add: ledger_db_def empty_db_def)
  have r7: "in_int4 100" by (simp add: in_int4_def INT4_MIN_def INT4_MAX_def)
  have r8: "in_int4 0" by (simp add: in_int4_def INT4_MIN_def INT4_MAX_def)
  have n7: "(- 100 :: int) \<noteq> 0" by simp
  have n8: "(50 :: int) \<noteq> 0" by simp
  have g7: "(0::int) \<le> 100 + - 100" by simp
  have g8: "(0::int) \<le> 0 + 50" by simp
  have m7: "100 + 2 * - 100 \<le> INT4_MAX" by (simp add: INT4_MAX_def)
  have m8: "0 + 2 * 50 \<le> INT4_MAX" by (simp add: INT4_MAX_def)
  have s7: "\<not> invalid_nonempty_string (JString ''refund'')" by code_simp
  have s8: "\<not> invalid_nonempty_string (JString ''gift'')" by code_simp
  note w7 = adjust_credits_applies [OF p7 u7 i7 b7 r7 n7 g7 m7 s7, of 1]
  note w8 = adjust_credits_applies [OF p8 u8 i8 b8 r8 n8 g8 m8 s8, of 1]
  show ?thesis
    unfolding w7 w8 by (simp add: ledger_db_def empty_db_def)
qed

text \<open>
  C2. On a valid request for an existing target whose projected balance is negative, a
  database that answers gets 400 with the current balance and is left as it was; no set
  of failing calls turns the request into a success. And whatever the request and
  whichever calls fail, an adjustment that does not end in its 200 reply leaves the
  database (balance, transactions, audit log) unchanged.
\<close>

theorem adjust_credits_rejects_negative:
  assumes "parseInt10 s = Some uid"
    and "in_int4 uid"
    and "user_credits db uid \<noteq> None \<or> users db uid \<noteq> None"
    and "B = (case user_credits db uid of None \<Rightarrow> 0 | Some b \<Rightarrow> b)"
    and "\<not> invalid_amount_cents amount"
    and "\<not> invalid_nonempty_string reason"
    and "B + int_value amount < 0"
  shows "adjust_credits healthy db (Some adminUserId) s amount reason =
           (Replied 400 (NegativeBalance (negative_balance_error B) B), db)
         \<and> (\<forall>rejects. \<not> succeeded (fst (adjust_credits rejects db (Some adminUserId) s amount
                reason)))
         \<and> (\<forall>rejects adminUser s' amount' reason'.
              \<not> succeeded (fst (adjust_credits rejects db adminUser s' amount' reason')) \<longrightarrow>
              snd (adjust_credits rejects db adminUser s' amount' reason') = db)"
proof (intro conjI allI impI)
  show "adjust_credits healthy db (Some adminUserId) s amount reason =
           (Replied 400 (NegativeBalance (negative_balance_error B) B), db)"
    using assms
    by (auto simp: adjust_credits_def in_transaction_def adjust_credits_block_def bind_result_def
        await_def healthy_def rollback_reply_def select_balance_cents_def select_user_id_def
        currentBalanceCents_def Let_def split: option.splits)
next
  fix rejects
  show "\<not> succeeded (fst (adjust_credits rejects db (Some adminUserId) s amount reason))"
    using assms
    by (auto simp: adjust_credits_def in_transaction_def adjust_credits_block_def bind_result_def
        await_def rollback_reply_def select_balance_cents_def select_user_id_def
        currentBalanceCents_def Let_def split: option.splits)
next
  fix rejects adminUser s' amount' reason'
  assume "\<not> succeeded (fst (adjust_credits rejects db adminUser s' amount' reason'))"
  then show "snd (adjust_credits rejects db adminUser s' amount' reason') = db"
    by (rule adjust_credits_rollback)
qed

text \<open>
  User 7 holds 100 cents: a debit of 101 is refused with the balance 100 in the reply,
  and a credit of 50 whose \<open>COMMIT\<close> fails is answered 500; the database is the same
  after both.
\<close>

theorem adjust_credits_rejects_negative_witness:
  "adjust_credits healthy ledger_db (Some 1) ''7'' (JInt (- 101)) (JString ''refund'') =
     (Replied 400
        (NegativeBalance
           (''Adjustment would result in a negative balance. User has 100 cents. ''
            @ ''Maximum possible deduction is 100 cents.'') 100), ledger_db)
   \<and> adjust_credits (\<lambda>c. c = COMMIT) ledger_db (Some 1) ''7'' (JInt 50) (JString ''gift'') =
     (Replied 500 (Error ''Failed to adjust user credits.''), ledger_db)"
proof -
  have p7: "parseInt10 ''7'' = Some 7" by code_simp
  have i7: "in_int4 7" by (simp add: in_int4_def INT4_MIN_def INT4_MAX_def)
  have u7: "user_credits ledger_db 7 \<noteq> None \<or> users ledger_db 7 \<noteq> None"
    by (simp add: ledger_db_def empty_db_def)
  have b7: "100 = (case user_credits ledger_db 7 of None \<Rightarrow> 0 | Some b \<Rightarrow> b)"
    by (simp add: ledger_db_def empty_db_def)
  have a7: "\<not> invalid_amount_cents (JInt (- 101))" by (simp add: invalid_amount_JInt)
  have s7: "\<not> invalid_nonempty_string (JString ''refund'')" by code_simp
  have n7: "100 + int_value (JInt (- 101)) < 0" by (simp add: int_value_JInt)
  note w = adjust_credits_rejects_negative [OF p7 i7 u7 b7 a7 s7 n7, of 1]
  have first: "adjust_credits healthy ledger_db (Some 1) ''7'' (JInt (- 101)) (JString ''refund'')
      = (Replied 400 (NegativeBalance (negative_balance_error 100) 100), ledger_db)"
    using w by blast
  have msg: "negative_balance_error 100 =
      ''Adjustment would result in a negative balance. User has 100 cents. ''
      @ ''Maximum possible deduction is 100 cents.''"
    by code_simp
  have out: "fst (adjust_credits (\<lambda>c. c = COMMIT) ledger_db (Some 1) ''7'' (JInt 50)
      (JString ''gift'')) = Replied 500 (Error ''Failed to adjust user credits.'')"
    by code_simp
  then have "\<not> succeeded (fst (adjust_credits (\<lambda>c. c = COMMIT) ledger_db (Some 1) ''7'' (JInt 50)
      (JString ''gift'')))"
    by simp
  with w have "snd (adjust_credits (\<lambda>c. c = COMMIT) ledger_db (Some 1) ''7'' (JInt 50)
      (JString ''gift'')) = ledger_db"
    by blast
  with out have second: "adjust_credits (\<lambda>c. c = COMMIT) ledger_db (Some 1) ''7'' (JInt 50)
      (JString ''gift'') = (Replied 500 (Error ''Failed to adjust user credits.''), ledger_db)"
    by (simp add: prod_eq_iff)
  show ?thesis using first second msg by simp
qed

text \<open>
  C3 at a balance of 2,000,000,000 cents and an adjustment of +100,000,000: the
  projection 2,100,000,000 fits the column, and the single upsert that sets it succeeds.
  The handler's sequence fails in its second upsert, which adds the amount a second time
  (2,200,000,000); the request is answered 500 and nothing is written.
\<close>

theorem update_user_credits_overflow:
  "update_user_credits healthy rich_db 7 100000000 2100000000 = Inl DbError
   \<and> upsert_balance_set rich_db 7 2100000000 =
       Inr (rich_db\<lparr>user_credits := (user_credits rich_db)(7 \<mapsto> 2100000000)\<rparr>, 2100000000)
   \<and> adjust_credits healthy rich_db (Some 1) ''7'' (JInt 100000000) (JString ''bonus'') =
       (Replied 500 (Error ''Failed to adjust user credits.''), rich_db)"
proof -
  have p: "parseInt10 ''7'' = Some 7" by code_simp
  have r: "\<not> invalid_nonempty_string (JString ''bonus'')" by code_simp
  have u: "update_user_credits healthy rich_db 7 100000000 2100000000 = Inl DbError"
    by (simp add: update_user_credits_def bind_result_def await_def healthy_def
        upsert_balance_add_def rich_db_def empty_db_def in_int4_def INT4_MAX_def INT4_MIN_def)
  have s: "upsert_balance_set rich_db 7 2100000000 =
       Inr (rich_db\<lparr>user_credits := (user_credits rich_db)(7 \<mapsto> 2100000000)\<rparr>, 2100000000)"
    by (simp add: upsert_balance_set_def rich_db_def empty_db_def in_int4_def INT4_MAX_def
        INT4_MIN_def)
  have b: "adjust_credits_block healthy rich_db 1 7 100000000 ''bonus'' = Inl DbError"
    unfolding adjust_credits_block_def
    using u
    by (simp add: bind_result_def await_def healthy_def select_balance_cents_def
        currentBalanceCents_def rich_db_def empty_db_def in_int4_def INT4_MAX_def INT4_MIN_def)
  have h: "adjust_credits healthy rich_db (Some 1) ''7'' (JInt 100000000) (JString ''bonus'') =
       (Replied 500 (Error ''Failed to adjust user credits.''), rich_db)"
    using p r b
    by (simp add: adjust_credits_def in_transaction_def healthy_def invalid_amount_JInt
        int_value_JInt)
  show ?thesis using u s h by simp
qed

section \<open>Properties of the role update and of the no-op updates\<close>






text \<open>
  C10. A role update that passed the handler's checks (a valid role, and not the acting
  user's own demotion) and asks for the role the target already has is answered 200 "no
  change made", and the database is as before. A model update whose two costs are
  non-negative numbers equal to the stored ones, and whose active flag equals the stored
  one, is answered 200 "no change made", and the database is as before.
\<close>

theorem no_op_updates:
  "(parseInt10 s = Some uid \<and> in_int4 uid \<and> \<not> invalid_role newRole
      \<and> \<not> (uid = actor \<and> toLowerCase (string_value newRole) \<noteq> ''admin'')
      \<and> has_role db uid (toLowerCase (string_value newRole)) \<longrightarrow>
      update_role healthy db (Some actor) s newRole summ =
        (Replied 200 (RoleUnchanged (toLowerCase (string_value newRole))), db))
   \<and> (parseInt10 ms = Some mid \<and> select_model db mid = Inr (currentModel # others)
      \<and> \<not> js_lt (parseFloat_val input_cost) (Number 0)
      \<and> \<not> js_lt (parseFloat_val output_cost) (Number 0)
      \<and> strict_equal (parseFloat_col (input_cost_per_million_tokens currentModel))
           (parseFloat_val input_cost)
      \<and> strict_equal (parseFloat_col (output_cost_per_million_tokens currentModel))
           (parseFloat_val output_cost)
      \<and> is_active currentModel = Some b \<longrightarrow>
      update_model healthy numeric_text db (Some actor) ms input_cost output_cost (JBool b) =
        (Replied 200 (ModelUnchanged currentModel), db))"
proof (intro conjI impI)
  assume "parseInt10 s = Some uid \<and> in_int4 uid \<and> \<not> invalid_role newRole
      \<and> \<not> (uid = actor \<and> toLowerCase (string_value newRole) \<noteq> ''admin'')
      \<and> has_role db uid (toLowerCase (string_value newRole))"
  then show "update_role healthy db (Some actor) s newRole summ =
        (Replied 200 (RoleUnchanged (toLowerCase (string_value newRole))), db)"
    by (auto simp: update_role_def in_transaction_def update_role_block_def bind_result_def
        await_def healthy_def select_role_def rollback_reply_def has_role_def Let_def
        split: option.splits)
next
  assume "parseInt10 ms = Some mid \<and> select_model db mid = Inr (currentModel # others)
      \<and> \<not> js_lt (parseFloat_val input_cost) (Number 0)
      \<and> \<not> js_lt (parseFloat_val output_cost) (Number 0)
      \<and> strict_equal (parseFloat_col (input_cost_per_million_tokens currentModel))
           (parseFloat_val input_cost)
      \<and> strict_equal (parseFloat_col (output_cost_per_million_tokens currentModel))
           (parseFloat_val output_cost)
      \<and> is_active currentModel = Some b"
  then show "update_model healthy numeric_text db (Some actor) ms input_cost output_cost (JBool b) =
        (Replied 200 (ModelUnchanged currentModel), db)"
    by (auto simp: update_model_def in_transaction_def update_model_block_def bind_result_def
        await_def healthy_def rollback_reply_def strict_equal_def Let_def)
qed

text \<open>
  Admin 2 asks for the role \<open>User\<close> for user 1, who has it, and sends the stored costs
  1.00 and 2.00 and the stored flag for model 1, as the text \<open>1\<close>, the number 2 and
  \<open>true\<close>.
\<close>

theorem no_op_updates_witness:
  "update_role healthy staff_db (Some 2) ''1'' (JString ''User'') JUndefined =
     (Replied 200 (RoleUnchanged ''user''), staff_db)
   \<and> update_model healthy (\<lambda>n. None) staff_db (Some 2) ''1'' (JString ''1'')
       (JNumber (Number 2)) (JBool True) =
     (Replied 200 (ModelUnchanged gemini_flash), staff_db)"
proof -
  have p1: "parseInt10 ''1'' = Some 1" by code_simp
  have i1: "in_int4 1" by (simp add: in_int4_def INT4_MIN_def INT4_MAX_def)
  have good: "\<not> invalid_role (JString ''User'')" by code_simp
  have low: "toLowerCase (string_value (JString ''User'')) = ''user''" by code_simp
  have other: "\<not> ((1::int) = 2 \<and> toLowerCase (string_value (JString ''User'')) \<noteq> ''admin'')"
    by simp
  have has: "has_role staff_db 1 (toLowerCase (string_value (JString ''User'')))"
    unfolding low by (simp add: has_role_def staff_db_def empty_db_def alice_def)
  have sel: "select_model staff_db 1 = Inr (gemini_flash # [])"
    by (simp add: select_model_def staff_db_def empty_db_def gemini_flash_def)
  have c1: "\<not> js_lt (parseFloat_val (JString ''1'')) (Number 0)" by code_simp
  have c2: "\<not> js_lt (parseFloat_val (JNumber (Number 2))) (Number 0)" by code_simp
  have e1: "strict_equal (parseFloat_col (input_cost_per_million_tokens gemini_flash))
              (parseFloat_val (JString ''1''))" by code_simp
  have e2: "strict_equal (parseFloat_col (output_cost_per_million_tokens gemini_flash))
              (parseFloat_val (JNumber (Number 2)))" by code_simp
  have act: "is_active gemini_flash = Some True" by (simp add: gemini_flash_def)
  note inst = no_op_updates [where s = "''1''" and uid = 1 and newRole = "JString ''User''"
      and actor = 2 and db = staff_db and summ = JUndefined and ms = "''1''" and mid = 1
      and currentModel = gemini_flash and others = "[]" and input_cost = "JString ''1''"
      and output_cost = "JNumber (Number 2)" and b = True and numeric_text = "\<lambda>n. None"]
  have first: "update_role healthy staff_db (Some 2) ''1'' (JString ''User'') JUndefined =
      (Replied 200 (RoleUnchanged (toLowerCase (string_value (JString ''User'')))), staff_db)"
    using inst p1 i1 good other has by blast
  have second: "update_model healthy (\<lambda>n. None) staff_db (Some 2) ''1'' (JString ''1'')
       (JNumber (Number 2)) (JBool True) =
     (Replied 200 (ModelUnchanged gemini_flash), staff_db)"
    using inst p1 sel c1 c2 e1 e2 act by blast
  show ?thesis using first second low by simp
qed

section \<open>Two adjustments, one after the other\<close>

text \<open>
  From a balance of 100 cents, the adjustments -50 and -60 run one after the other: the
  first is applied and the second refused, in either order. The balance ends at 50 when
  -50 runs first and at 40 when -60 runs first.
\<close>

theorem serial_adjustments:
  "fst (adjust_credits healthy ledger_db (Some 1) ''7'' (JInt (- 50)) (JString ''a''))
     = Replied 200 (CreditsAdjusted 7 100 (- 50) 50)
   \<and> adjust_credits healthy
       (snd (adjust_credits healthy ledger_db (Some 1) ''7'' (JInt (- 50)) (JString ''a'')))
       (Some 1) ''7'' (JInt (- 60)) (JString ''b'')
     = (Replied 400 (NegativeBalance (negative_balance_error 50) 50),
        snd (adjust_credits healthy ledger_db (Some 1) ''7'' (JInt (- 50)) (JString ''a'')))
   \<and> fst (adjust_credits healthy ledger_db (Some 1) ''7'' (JInt (- 60)) (JString ''b''))
     = Replied 200 (CreditsAdjusted 7 100 (- 60) 40)
   \<and> adjust_credits healthy
       (snd (adjust_credits healthy ledger_db (Some 1) ''7'' (JInt (- 60)) (JString ''b'')))
       (Some 1) ''7'' (JInt (- 50)) (JString ''a'')
     = (Replied 400 (NegativeBalance (negative_balance_error 40) 40),
        snd (adjust_credits healthy ledger_db (Some 1) ''7'' (JInt (- 60)) (JString ''b'')))"
proof -
  let ?after50 = "snd (adjust_credits healthy ledger_db (Some 1) ''7'' (JInt (- 50)) (JString ''a''))"
  let ?after60 = "snd (adjust_credits healthy ledger_db (Some 1) ''7'' (JInt (- 60)) (JString ''b''))"
  have p7: "parseInt10 ''7'' = Some 7" by code_simp
  have i7: "in_int4 7" by (simp add: in_int4_def INT4_MIN_def INT4_MAX_def)
  have sa: "\<not> invalid_nonempty_string (JString ''a'')" by code_simp
  have sb: "\<not> invalid_nonempty_string (JString ''b'')" by code_simp
  have f50: "fst (adjust_credits healthy ledger_db (Some 1) ''7'' (JInt (- 50)) (JString ''a''))
     = Replied 200 (CreditsAdjusted 7 100 (- 50) 50)" by code_simp
  have f60: "fst (adjust_credits healthy ledger_db (Some 1) ''7'' (JInt (- 60)) (JString ''b''))
     = Replied 200 (CreditsAdjusted 7 100 (- 60) 40)" by code_simp
  have b50: "user_credits ?after50 7 = Some 50" by code_simp
  have b60: "user_credits ?after60 7 = Some 40" by code_simp
  have r60: "adjust_credits healthy ?after50 (Some 1) ''7'' (JInt (- 60)) (JString ''b'')
     = (Replied 400 (NegativeBalance (negative_balance_error 50) 50), ?after50)"
    using p7 i7 sb b50
    by (simp add: adjust_credits_def in_transaction_def adjust_credits_block_def bind_result_def
        await_def healthy_def rollback_reply_def select_balance_cents_def
        currentBalanceCents_def invalid_amount_JInt int_value_JInt)
  have r50: "adjust_credits healthy ?after60 (Some 1) ''7'' (JInt (- 50)) (JString ''a'')
     = (Replied 400 (NegativeBalance (negative_balance_error 40) 40), ?after60)"
    using p7 i7 sa b60
    by (simp add: adjust_credits_def in_transaction_def adjust_credits_block_def bind_result_def
        await_def healthy_def rollback_reply_def select_balance_cents_def
        currentBalanceCents_def invalid_amount_JInt int_value_JInt)
  show ?thesis using f50 f60 r60 r50 by simp
qed

end
